theory Spec2Isabelle
  imports Complex_Main "HOL-Library.Sublist"
begin

section \<open>The quickstart notebook: search, activate, download\<close>

text \<open>
  The repository is one notebook, \<^verbatim>\<open>notebooks/search_and_download_quickstart.ipynb\<close>.
  Its code cells are a straight-line script: read the API key, build a GeoJSON geometry and
  four filter dictionaries, POST a search, pick the first image id, GET its assets, GET the
  activation link, GET the self link once, and read the download location.

  The embedding has three layers, each following the cells:
  \<^item> Python values the cells build live in an explicit store (dictionaries and lists are
    shared by reference in Python, so what a later dictionary holds is an address);
  \<^item> JSON values are trees: the body a request carries and the bodies the service answers;
  \<^item> the cells that talk to the service thread a world (the requests issued so far, the
    values printed so far) and stop at the first exception, as a run of the notebook from
    top to bottom does.
\<close>

subsection \<open>JSON values and Python exceptions\<close>

text \<open>
  What \<^verbatim>\<open>response.json()\<close> returns and what \<^verbatim>\<open>json=...\<close> sends. An object
  keeps its members in order (a Python dictionary keeps insertion order); the list holds the
  dictionary's items, so its keys are distinct. Floats are kept as the decimal number written.
\<close>

datatype json =
    JNull
  | JBool bool
  | JInt int
  | JFloat real
  | JStr string
  | JArr "json list"
  | JObj "(string \<times> json) list"

text \<open>
  The exceptions the notebook's statements can raise. None of them is caught anywhere in the
  notebook: there is no \<^verbatim>\<open>try\<close> in any cell.
\<close>

datatype exn =
    KeyError json
  | IndexError
  | TypeError
  | AttributeError
  | ValueError
  | JSONDecodeError
  | RequestException

subsection \<open>Cell 1: the API key\<close>

text \<open>
  \<^verbatim>\<open>os.environ.get(key, default)\<close>: the variable's value, or the default when unset.
\<close>

definition environ_get :: "(string \<rightharpoonup> string) \<Rightarrow> string \<Rightarrow> string \<Rightarrow> string" where
  "environ_get environ k d = (case environ k of None \<Rightarrow> d | Some v \<Rightarrow> v)"

text \<open>
  \<^verbatim>\<open>
  if os.environ.get('PL_API_KEY', ''):
      API_KEY = os.environ.get('PL_API_KEY', '')
  else:
      API_KEY = 'PLAKcaa4ce6cd0464a058d71353bf2bca50b'
  \<close>
  A Python string is true exactly when it is not empty.
\<close>

definition API_KEY :: "(string \<rightharpoonup> string) \<Rightarrow> string" where
  "API_KEY environ =
     (if environ_get environ ''PL_API_KEY'' '''' \<noteq> ''''
      then environ_get environ ''PL_API_KEY'' ''''
      else ''PLAKcaa4ce6cd0464a058d71353bf2bca50b'')"

subsection \<open>The store: dictionaries and lists by reference\<close>

text \<open>
  A Python value is an immutable scalar or a reference to a dictionary or a list in the
  store. A dictionary or list display \<^verbatim>\<open>{...}\<close>, \<^verbatim>\<open>[...]\<close> allocates a new object
  whose members are the values of its member expressions: a variable naming a dictionary
  contributes that dictionary's address, not a copy.
\<close>

datatype pyval =
    VNone
  | VBool bool
  | VInt int
  | VFloat real
  | VStr string
  | VRef nat

datatype pyobj =
    ODict "(string \<times> pyval) list"
  | OList "pyval list"

type_synonym heap = "pyobj list"

definition new_dict :: "(string \<times> pyval) list \<Rightarrow> heap \<Rightarrow> pyval \<times> heap" where
  "new_dict kvs h = (VRef (length h), h @ [ODict kvs])"

definition new_list :: "pyval list \<Rightarrow> heap \<Rightarrow> pyval \<times> heap" where
  "new_list vs h = (VRef (length h), h @ [OList vs])"

text \<open>The object a reference points to, when it points into the store.\<close>

fun deref :: "heap \<Rightarrow> pyval \<Rightarrow> pyobj option" where
  "deref h (VRef a) = (if a < length h then Some (h ! a) else None)"
| "deref h _ = None"

subsection \<open>Cell 2: the area of interest\<close>

text \<open>
  \<^verbatim>\<open>
  geojson_geometry = {
    "type": "Polygon",
    "coordinates": [
      [
        [-121.59290313720705, 37.93444993515032],
        [-121.27017974853516, 37.93444993515032],
        [-121.27017974853516, 38.065932950547484],
        [-121.59290313720705, 38.065932950547484],
        [-121.59290313720705, 37.93444993515032]
      ]
    ]
  }
  \<close>
  Member expressions are evaluated left to right, inner displays before the display that
  holds them: five coordinate pairs, the ring, the list of rings, the dictionary.
\<close>

definition geojson_geometry :: "heap \<Rightarrow> pyval \<times> heap" where
  "geojson_geometry h =
     (let (p1, h) = new_list [VFloat (-121.59290313720705), VFloat 37.93444993515032] h;
          (p2, h) = new_list [VFloat (-121.27017974853516), VFloat 37.93444993515032] h;
          (p3, h) = new_list [VFloat (-121.27017974853516), VFloat 38.065932950547484] h;
          (p4, h) = new_list [VFloat (-121.59290313720705), VFloat 38.065932950547484] h;
          (p5, h) = new_list [VFloat (-121.59290313720705), VFloat 37.93444993515032] h;
          (ring, h) = new_list [p1, p2, p3, p4, p5] h;
          (coordinates, h) = new_list [ring] h
      in new_dict [(''type'', VStr ''Polygon''), (''coordinates'', coordinates)] h)"

subsection \<open>Cell 3: the filters\<close>

text \<open>
  \<^verbatim>\<open>
  geometry_filter = {
    "type": "GeometryFilter",
    "field_name": "geometry",
    "config": geojson_geometry
  }
  \<close>
\<close>

definition geometry_filter :: "pyval \<Rightarrow> heap \<Rightarrow> pyval \<times> heap" where
  "geometry_filter geojson_geometry_v h =
     new_dict [(''type'', VStr ''GeometryFilter''),
               (''field_name'', VStr ''geometry''),
               (''config'', geojson_geometry_v)] h"

text \<open>
  \<^verbatim>\<open>
  date_range_filter = {
    "type": "DateRangeFilter",
    "field_name": "acquired",
    "config": {
      "gte": "2016-08-31T00:00:00.000Z",
      "lte": "2016-09-01T00:00:00.000Z"
    }
  }
  \<close>
\<close>

definition date_range_filter :: "heap \<Rightarrow> pyval \<times> heap" where
  "date_range_filter h =
     (let (config, h) = new_dict [(''gte'', VStr ''2016-08-31T00:00:00.000Z''),
                                  (''lte'', VStr ''2016-09-01T00:00:00.000Z'')] h
      in new_dict [(''type'', VStr ''DateRangeFilter''),
                   (''field_name'', VStr ''acquired''),
                   (''config'', config)] h)"

text \<open>
  \<^verbatim>\<open>
  # only get images which have <50% cloud coverage
  cloud_cover_filter = {
    "type": "RangeFilter",
    "field_name": "cloud_cover",
    "config": {
      "lte": 0.5
    }
  }
  \<close>
\<close>

definition cloud_cover_filter :: "heap \<Rightarrow> pyval \<times> heap" where
  "cloud_cover_filter h =
     (let (config, h) = new_dict [(''lte'', VFloat 0.5)] h
      in new_dict [(''type'', VStr ''RangeFilter''),
                   (''field_name'', VStr ''cloud_cover''),
                   (''config'', config)] h)"

text \<open>
  \<^verbatim>\<open>
  combined_filter = {
    "type": "AndFilter",
    "config": [geometry_filter, date_range_filter, cloud_cover_filter]
  }
  \<close>
  The three variables are read, not copied: the list holds their values.
\<close>

definition combined_filter :: "pyval \<Rightarrow> pyval \<Rightarrow> pyval \<Rightarrow> heap \<Rightarrow> pyval \<times> heap" where
  "combined_filter geometry_filter_v date_range_filter_v cloud_cover_filter_v h =
     (let (config, h) = new_list [geometry_filter_v, date_range_filter_v, cloud_cover_filter_v] h
      in new_dict [(''type'', VStr ''AndFilter''), (''config'', config)] h)"

subsection \<open>Cell 4, first half: the request object\<close>

text \<open>
  \<^verbatim>\<open>
  item_type = "PSScene"
  search_request = {
    "item_types": [item_type],
    "filter": combined_filter
  }
  \<close>
\<close>

definition item_type :: string where
  "item_type = ''PSScene''"

definition search_request :: "pyval \<Rightarrow> heap \<Rightarrow> pyval \<times> heap" where
  "search_request combined_filter_v h =
     (let (item_types, h) = new_list [VStr item_type] h
      in new_dict [(''item_types'', item_types), (''filter'', combined_filter_v)] h)"

text \<open>
  The variables of cells 2 to 4 after the construction statements have run in order, and
  the store they leave.
\<close>

record filters =
  v_geojson_geometry :: pyval
  v_geometry_filter :: pyval
  v_date_range_filter :: pyval
  v_cloud_cover_filter :: pyval
  v_combined_filter :: pyval
  v_search_request :: pyval

definition build_filters :: "heap \<Rightarrow> filters \<times> heap" where
  "build_filters h =
     (let (g, h) = geojson_geometry h;
          (gf, h) = geometry_filter g h;
          (df, h) = date_range_filter h;
          (cf, h) = cloud_cover_filter h;
          (af, h) = combined_filter gf df cf h;
          (sr, h) = search_request af h
      in (\<lparr>v_geojson_geometry = g, v_geometry_filter = gf, v_date_range_filter = df,
           v_cloud_cover_filter = cf, v_combined_filter = af, v_search_request = sr\<rparr>, h))"

subsection \<open>Serialising a stored value\<close>

text \<open>
  \<^verbatim>\<open>requests.post(..., json=search_request)\<close> walks the object graph from the value it is
  given and writes the JSON tree: a dictionary as an object with its members in order, a list
  as an array. The walk follows references; the first argument bounds its depth, and
  \<open>None\<close> is the walk that does not finish within the bound or meets a dangling address.
\<close>

fun json_dumps :: "nat \<Rightarrow> heap \<Rightarrow> pyval \<Rightarrow> json option" where
  "json_dumps n h VNone = Some JNull"
| "json_dumps n h (VBool b) = Some (JBool b)"
| "json_dumps n h (VInt i) = Some (JInt i)"
| "json_dumps n h (VFloat x) = Some (JFloat x)"
| "json_dumps n h (VStr s) = Some (JStr s)"
| "json_dumps 0 h (VRef a) = None"
| "json_dumps (Suc n) h (VRef a) =
     (if a < length h then
        (case h ! a of
           OList vs \<Rightarrow> map_option JArr (those (map (json_dumps n h) vs))
         | ODict kvs \<Rightarrow>
             map_option JObj
               (those (map (\<lambda>kv. map_option (Pair (fst kv)) (json_dumps n h (snd kv))) kvs)))
      else None)"

subsection \<open>Subscripts, iteration and method calls on parsed JSON\<close>

text \<open>
  \<^verbatim>\<open>xs[i]\<close> on a Python sequence: a negative index counts from the end, an index
  outside the sequence raises IndexError.
\<close>

definition list_index :: "'a list \<Rightarrow> int \<Rightarrow> exn + 'a" where
  "list_index xs i =
     (if 0 \<le> i \<and> i < int (length xs) then Inr (xs ! nat i)
      else if i < 0 \<and> - int (length xs) \<le> i then Inr (xs ! nat (int (length xs) + i))
      else Inl IndexError)"

text \<open>
  \<^verbatim>\<open>v['key']\<close>: a dictionary without the key raises KeyError with the key; a list, a
  string, a number, a boolean or None subscripted by a string raises TypeError.
\<close>

fun getitem_str :: "json \<Rightarrow> string \<Rightarrow> exn + json" where
  "getitem_str (JObj kvs) k =
     (case map_of kvs k of Some v \<Rightarrow> Inr v | None \<Rightarrow> Inl (KeyError (JStr k)))"
| "getitem_str _ k = Inl TypeError"

text \<open>
  \<^verbatim>\<open>v[0]\<close>, \<^verbatim>\<open>v[1]\<close>: an element of a list, a one-character string of a string;
  a dictionary parsed from JSON has only string keys, so an integer key is missing.
\<close>

fun getitem_int :: "json \<Rightarrow> int \<Rightarrow> exn + json" where
  "getitem_int (JArr xs) i = list_index xs i"
| "getitem_int (JStr s) i =
     (case list_index s i of Inl e \<Rightarrow> Inl e | Inr c \<Rightarrow> Inr (JStr [c]))"
| "getitem_int (JObj kvs) i = Inl (KeyError (JInt i))"
| "getitem_int _ i = Inl TypeError"

text \<open>\<^verbatim>\<open>d.items()\<close> and \<^verbatim>\<open>d.keys()\<close>: only a dictionary has them.\<close>

fun dict_items :: "json \<Rightarrow> exn + (string \<times> json) list" where
  "dict_items (JObj kvs) = Inr kvs"
| "dict_items _ = Inl AttributeError"

fun dict_keys :: "json \<Rightarrow> exn + string list" where
  "dict_keys (JObj kvs) = Inr (map fst kvs)"
| "dict_keys _ = Inl AttributeError"

text \<open>
  \<^verbatim>\<open>for x in v\<close>: a list yields its elements, a dictionary its keys, a string its
  characters; anything else is not iterable.
\<close>

fun py_iter :: "json \<Rightarrow> exn + json list" where
  "py_iter (JArr xs) = Inr xs"
| "py_iter (JObj kvs) = Inr (map (\<lambda>kv. JStr (fst kv)) kvs)"
| "py_iter (JStr s) = Inr (map (\<lambda>c. JStr [c]) s)"
| "py_iter _ = Inl TypeError"

text \<open>Sequencing of expressions that may raise: the first exception ends the evaluation.\<close>

definition and_then :: "exn + 'a \<Rightarrow> ('a \<Rightarrow> exn + 'b) \<Rightarrow> exn + 'b" where
  "and_then r f = (case r of Inl e \<Rightarrow> Inl e | Inr x \<Rightarrow> f x)"

text \<open>
  A list comprehension \<^verbatim>\<open>[f(x) for x in xs]\<close>: the results in the order of \<open>xs\<close>,
  or the exception of the first element whose \<open>f\<close> raises.
\<close>

fun list_comp :: "('a \<Rightarrow> exn + 'b) \<Rightarrow> 'a list \<Rightarrow> exn + 'b list" where
  "list_comp f [] = Inr []"
| "list_comp f (x # xs) =
     (case f x of
        Inl e \<Rightarrow> Inl e
      | Inr y \<Rightarrow> (case list_comp f xs of Inl e \<Rightarrow> Inl e | Inr ys \<Rightarrow> Inr (y # ys)))"

subsection \<open>The service and the world\<close>

text \<open>
  A request as \<^verbatim>\<open>requests\<close> sends it: verb, URL, the \<^verbatim>\<open>auth\<close> argument (absent
  unless given) and the \<^verbatim>\<open>json\<close> body (absent unless given).
\<close>

datatype http_method = GET | POST

record request =
  verb :: http_method
  url :: string
  auth :: "(string \<times> string) option"
  body :: "json option"

text \<open>
  What comes back: a response whose body parses as JSON, a response whose body does not, or
  no response (the call raises). The notebook never looks at the HTTP status code.
\<close>

datatype reply = Body json | NotJson | NoReply

text \<open>
  The service is outside the repository: it is a parameter, the answer to the \<open>n\<close>-th
  request of the run (counting from 0) given the request.
\<close>

type_synonym server = "nat \<Rightarrow> request \<Rightarrow> reply"

record world =
  sent :: "request list"
  printed :: "json list"

type_synonym 'a io = "world \<Rightarrow> (exn + 'a) \<times> world"

definition bind :: "'a io \<Rightarrow> ('a \<Rightarrow> 'b io) \<Rightarrow> 'b io" where
  "bind m f w = (case m w of (Inl e, w') \<Rightarrow> (Inl e, w') | (Inr x, w') \<Rightarrow> f x w')"

definition lift :: "exn + 'a \<Rightarrow> 'a io" where
  "lift r w = (r, w)"

text \<open>\<^verbatim>\<open>print(v)\<close>: the value is recorded; its text is the interpreter's business.\<close>

definition print :: "json \<Rightarrow> unit io" where
  "print v w = (Inr (), w\<lparr>printed := printed w @ [v]\<rparr>)"

definition http :: "server \<Rightarrow> request \<Rightarrow> reply io" where
  "http srv r w =
     (case srv (length (sent w)) r of
        NoReply \<Rightarrow> (Inl RequestException, w\<lparr>sent := sent w @ [r]\<rparr>)
      | rep \<Rightarrow> (Inr rep, w\<lparr>sent := sent w @ [r]\<rparr>))"

definition HTTPBasicAuth :: "string \<Rightarrow> string \<Rightarrow> (string \<times> string) option" where
  "HTTPBasicAuth username password = Some (username, password)"

text \<open>
  \<^verbatim>\<open>requests.post(url, auth=..., json=...)\<close> with a literal URL, and
  \<^verbatim>\<open>requests.get(url, auth=...)\<close> with a URL that may come out of a response: a value
  that is not a string has no URL scheme, and \<^verbatim>\<open>requests\<close> raises before sending.
  Whether a string is a usable URL is the library's and the network's business: every way a
  call with a string URL raises is the service parameter's \<open>NoReply\<close>, and the attempt
  is counted among the requests.
\<close>

definition requests_post ::
    "server \<Rightarrow> string \<Rightarrow> (string \<times> string) option \<Rightarrow> json \<Rightarrow> reply io" where
  "requests_post srv u a j = http srv \<lparr>verb = POST, url = u, auth = a, body = Some j\<rparr>"

definition requests_get :: "server \<Rightarrow> json \<Rightarrow> (string \<times> string) option \<Rightarrow> reply io" where
  "requests_get srv u a =
     (case u of
        JStr s \<Rightarrow> http srv \<lparr>verb = GET, url = s, auth = a, body = None\<rparr>
      | _ \<Rightarrow> lift (Inl RequestException))"

text \<open>\<^verbatim>\<open>response.json()\<close>.\<close>

fun response_json :: "reply \<Rightarrow> exn + json" where
  "response_json (Body j) = Inr j"
| "response_json _ = Inl JSONDecodeError"

subsection \<open>Cell 4, second half: the search\<close>

text \<open>
  \<^verbatim>\<open>
  search_result = \
    requests.post(
      'https://api.planet.com/data/v1/quick-search',
      auth=HTTPBasicAuth(API_KEY, ''),
      json=search_request)
  geojson = search_result.json()
  print(list(geojson.items())[1][1][0])
  \<close>
  The printed expression: the second item of the response, its value, that value's first
  element.
\<close>

definition first_result :: "json \<Rightarrow> exn + json" where
  "first_result geojson =
     and_then (dict_items geojson) (\<lambda>items.
     and_then (list_index items 1) (\<lambda>item.
     getitem_int (snd item) 0))"

definition search_result :: "server \<Rightarrow> string \<Rightarrow> json \<Rightarrow> json io" where
  "search_result srv key search_request_j =
     bind (requests_post srv ''https://api.planet.com/data/v1/quick-search''
             (HTTPBasicAuth key '''') search_request_j) (\<lambda>search_result_v.
     bind (lift (response_json search_result_v)) (\<lambda>geojson.
     bind (lift (first_result geojson)) (\<lambda>first.
     bind (print first) (\<lambda>_.
     lift (Inr geojson)))))"

subsection \<open>Cell 5: the image ids\<close>

text \<open>
  \<^verbatim>\<open>
  image_ids = [feature['id'] for feature in geojson['features']]
  print(image_ids)
  \<close>
\<close>

definition image_ids :: "json \<Rightarrow> exn + json list" where
  "image_ids geojson =
     and_then (getitem_str geojson ''features'') (\<lambda>features.
     and_then (py_iter features) (\<lambda>fs.
     list_comp (\<lambda>feature. getitem_str feature ''id'') fs))"

subsection \<open>Cell 6: the first image and its assets\<close>

text \<open>
  \<^verbatim>\<open>
  id0 = image_ids[0]
  id0_url = 'https://api.planet.com/data/v1/item-types/{}/items/{}/assets'.format(item_type, id0)
  result = \
    requests.get(
      id0_url,
      auth=HTTPBasicAuth(API_KEY, '')
    )
  print(result.json().keys())
  \<close>
\<close>

definition id0 :: "json list \<Rightarrow> exn + json" where
  "id0 image_ids_v = list_index image_ids_v 0"

text \<open>
  \<^verbatim>\<open>'{}'.format(v)\<close> is \<^verbatim>\<open>str(v)\<close>: a string is itself; the text of any other value
  is the interpreter's and is taken as the parameter \<open>str_of\<close>.
\<close>

definition format_field :: "(json \<Rightarrow> string) \<Rightarrow> json \<Rightarrow> string" where
  "format_field str_of v = (case v of JStr s \<Rightarrow> s | _ \<Rightarrow> str_of v)"

definition id0_url :: "(json \<Rightarrow> string) \<Rightarrow> json \<Rightarrow> string" where
  "id0_url str_of id0_v =
     ''https://api.planet.com/data/v1/item-types/'' @ item_type @ ''/items/''
       @ format_field str_of id0_v @ ''/assets''"

definition result :: "server \<Rightarrow> string \<Rightarrow> (json \<Rightarrow> string) \<Rightarrow> json list \<Rightarrow> reply io" where
  "result srv key str_of image_ids_v =
     bind (lift (id0 image_ids_v)) (\<lambda>id0_v.
     bind (requests_get srv (JStr (id0_url str_of id0_v)) (HTTPBasicAuth key '''')) (\<lambda>result_v.
     bind (lift (and_then (response_json result_v) dict_keys)) (\<lambda>ks.
     bind (print (JArr (map JStr ks))) (\<lambda>_.
     lift (Inr result_v)))))"

subsection \<open>Cell 7: the status of the asset\<close>

text \<open>
  \<^verbatim>\<open>
  # This is "inactive" if the "ortho_analytic_4b" asset has not yet been activated; otherwise 'active'
  print(result.json()['ortho_analytic_4b']['status'])
  \<close>
\<close>

definition asset_status :: "json \<Rightarrow> exn + json" where
  "asset_status assets =
     and_then (getitem_str assets ''ortho_analytic_4b'') (\<lambda>asset.
     getitem_str asset ''status'')"

subsection \<open>Cell 8: activation\<close>

text \<open>
  \<^verbatim>\<open>
  links = result.json()[u"ortho_analytic_4b"]["_links"]
  self_link = links["_self"]
  activation_link = links["activate"]
  activate_result = \
    requests.get(
      activation_link,
      auth=HTTPBasicAuth(API_KEY, '')
    )
  \<close>
\<close>

definition links :: "json \<Rightarrow> exn + json" where
  "links assets =
     and_then (getitem_str assets ''ortho_analytic_4b'') (\<lambda>asset.
     getitem_str asset ''_links'')"

definition activate_result :: "server \<Rightarrow> string \<Rightarrow> reply \<Rightarrow> json io" where
  "activate_result srv key result_v =
     bind (lift (and_then (response_json result_v) links)) (\<lambda>links_v.
     bind (lift (getitem_str links_v ''_self'')) (\<lambda>self_link.
     bind (lift (getitem_str links_v ''activate'')) (\<lambda>activation_link.
     bind (requests_get srv activation_link (HTTPBasicAuth key '''')) (\<lambda>_.
     lift (Inr self_link)))))"

subsection \<open>Cell 9: the activation status\<close>

text \<open>
  \<^verbatim>\<open>
  activation_status_result = \
    requests.get(
      self_link,
      auth=HTTPBasicAuth(API_KEY, '')
    )
  print(activation_status_result.json()["status"])
  \<close>
  One GET, one print: the cell has no loop.
\<close>

definition activation_status_result :: "server \<Rightarrow> string \<Rightarrow> json \<Rightarrow> reply io" where
  "activation_status_result srv key self_link =
     bind (requests_get srv self_link (HTTPBasicAuth key '''')) (\<lambda>r.
     bind (lift (and_then (response_json r) (\<lambda>j. getitem_str j ''status''))) (\<lambda>status.
     bind (print status) (\<lambda>_.
     lift (Inr r))))"

subsection \<open>Cell 10: the download link\<close>

text \<open>
  \<^verbatim>\<open>
  download_link = activation_status_result.json()["location"]
  print(download_link)
  \<close>
\<close>

definition download_link :: "reply \<Rightarrow> exn + json" where
  "download_link activation_status_result_v =
     and_then (response_json activation_status_result_v) (\<lambda>j. getitem_str j ''location'')"

subsection \<open>The notebook, top to bottom\<close>

text \<open>
  The cells in order, from a fresh kernel: an empty store, nothing sent, nothing printed.
  The run ends at the first exception, or with the download link.
\<close>

definition notebook :: "(string \<rightharpoonup> string) \<Rightarrow> server \<Rightarrow> (json \<Rightarrow> string) \<Rightarrow> json io" where
  "notebook environ srv str_of =
     (let key = API_KEY environ;
          (vars, h) = build_filters []
      in bind (lift (case json_dumps (length h) h (v_search_request vars) of
                       None \<Rightarrow> Inl ValueError
                     | Some j \<Rightarrow> Inr j)) (\<lambda>search_request_j.
         bind (search_result srv key search_request_j) (\<lambda>geojson.
         bind (lift (image_ids geojson)) (\<lambda>image_ids_v.
         bind (print (JArr image_ids_v)) (\<lambda>_.
         bind (result srv key str_of image_ids_v) (\<lambda>result_v.
         bind (lift (and_then (response_json result_v) asset_status)) (\<lambda>status.
         bind (print status) (\<lambda>_.
         bind (activate_result srv key result_v) (\<lambda>self_link.
         bind (activation_status_result srv key self_link) (\<lambda>activation_status_result_v.
         bind (lift (download_link activation_status_result_v)) (\<lambda>download_link_v.
         bind (print download_link_v) (\<lambda>_.
         lift (Inr download_link_v)))))))))))))"

definition fresh :: world where
  "fresh = \<lparr>sent = [], printed = []\<rparr>"

subsection \<open>The comparison a range configuration names\<close>

text \<open>
  The notebook only writes the configuration of a RangeFilter; the service evaluates it. To
  state which values a written configuration admits, its comparison keys are read by their
  names: \<^verbatim>\<open>gt\<close> and \<^verbatim>\<open>lt\<close> strict, \<^verbatim>\<open>gte\<close> and \<^verbatim>\<open>lte\<close> inclusive. A value
  is admitted when every bound of the configuration holds for it.
\<close>

fun range_bound :: "string \<Rightarrow> json \<Rightarrow> real \<Rightarrow> bool" where
  "range_bound k (JFloat b) x =
     (if k = ''gt'' then b < x else if k = ''gte'' then b \<le> x
      else if k = ''lt'' then x < b else if k = ''lte'' then x \<le> b else False)"
| "range_bound k (JInt b) x =
     (if k = ''gt'' then real_of_int b < x else if k = ''gte'' then real_of_int b \<le> x
      else if k = ''lt'' then x < real_of_int b else if k = ''lte'' then x \<le> real_of_int b
      else False)"
| "range_bound k _ x = False"

fun range_bounds :: "(string \<times> json) list \<Rightarrow> real \<Rightarrow> bool" where
  "range_bounds [] x = True"
| "range_bounds (kv # kvs) x = (range_bound (fst kv) (snd kv) x \<and> range_bounds kvs x)"

fun range_admits :: "json \<Rightarrow> real \<Rightarrow> bool" where
  "range_admits (JObj kvs) x = range_bounds kvs x"
| "range_admits _ x = False"

subsection \<open>What a computation sends\<close>

text \<open>
  Two summaries of a computation's effect on the list of requests, used to reason about a
  whole run: it appends at most \<open>n\<close> requests, all satisfying \<open>P\<close>; and it appends at
  least one request, the first being \<open>r\<close>.
\<close>

definition traffic :: "(request \<Rightarrow> bool) \<Rightarrow> nat \<Rightarrow> 'a io \<Rightarrow> bool" where
  "traffic P n m =
     (\<forall>w. \<exists>rs. sent (snd (m w)) = sent w @ rs \<and> length rs \<le> n \<and> list_all P rs)"


subsection \<open>A scripted service\<close>

text \<open>
  Concrete inputs for the scenarios below: an environment without and with the key, a text
  for non-string ids, and a service that answers the search with one feature, the assets
  request with a given assets mapping, the activation with an empty body, the first status
  query (the fourth request of a run) with a given status body and any later status query
  with an active asset.
\<close>

definition unset_environ :: "string \<rightharpoonup> string" where
  "unset_environ k = None"

definition set_environ :: "string \<rightharpoonup> string" where
  "set_environ k = (if k = ''PL_API_KEY'' then Some ''my-key'' else None)"

definition str_stub :: "json \<Rightarrow> string" where
  "str_stub v = ''?''"

definition demo_geojson :: json where
  "demo_geojson =
     JObj [(''_links'', JObj []),
           (''features'', JArr [JObj [(''id'', JStr ''20160831_212705_0c43'')],
                                JObj [(''id'', JStr ''20160831_212703_0c43'')]]),
           (''type'', JStr ''FeatureCollection'')]"

definition demo_assets :: json where
  "demo_assets =
     JObj [(''ortho_analytic_4b'',
            JObj [(''status'', JStr ''inactive''),
                  (''_links'', JObj [(''_self'', JStr ''https://self''),
                                     (''activate'', JStr ''https://activate'')])])]"

definition demo_active :: json where
  "demo_active =
     JObj [(''status'', JStr ''active''), (''location'', JStr ''https://download'')]"

definition demo_server :: "json \<Rightarrow> json \<Rightarrow> server" where
  "demo_server assets first_status n r =
     (if verb r = POST then Body demo_geojson
      else if url r = ''https://self''
        then (if n \<le> 3 then Body first_status else Body demo_active)
      else if url r = ''https://activate'' then NotJson
      else Body assets)"

section \<open>Auxiliary facts\<close>

subsection \<open>Serialisation is stable\<close>

lemma those_map_Some_transfer:
  assumes "those (map f vs) = Some js"
    and "\<And>v j. v \<in> set vs \<Longrightarrow> f v = Some j \<Longrightarrow> g v = Some j"
  shows "those (map g vs) = Some js"
  using assms
proof (induction vs arbitrary: js)
  case Nil
  then show ?case by simp
next
  case (Cons v vs)
  then show ?case by (auto split: option.splits)
qed

text \<open>Objects allocated later do not change what an earlier value serialises to.\<close>

lemma json_dumps_heap_mono:
  "json_dumps n h v = Some j \<Longrightarrow> json_dumps n (h @ h') v = Some j"
proof (induction n arbitrary: v j)
  case 0
  then show ?case by (cases v) auto
next
  case (Suc n)
  show ?case
  proof (cases v)
    case (VRef a)
    with Suc.prems have a: "a < length h"
      by (auto split: if_splits)
    show ?thesis
    proof (cases "h ! a")
      case (OList vs)
      with Suc.prems VRef a obtain js
        where js: "those (map (json_dumps n h) vs) = Some js" "j = JArr js"
        by auto
      have "those (map (json_dumps n (h @ h')) vs) = Some js"
        by (rule those_map_Some_transfer[OF js(1)]) (rule Suc.IH)
      with VRef a OList js show ?thesis
        by (simp add: nth_append)
    next
      case (ODict kvs)
      with Suc.prems VRef a obtain js
        where js: "those (map (\<lambda>kv. map_option (Pair (fst kv)) (json_dumps n h (snd kv))) kvs)
                     = Some js" "j = JObj js"
        by auto
      have "those (map (\<lambda>kv. map_option (Pair (fst kv)) (json_dumps n (h @ h') (snd kv))) kvs)
              = Some js"
        by (rule those_map_Some_transfer[OF js(1)]) (auto dest: Suc.IH)
      with VRef a ODict js show ?thesis
        by (simp add: nth_append)
    qed
  qed (use Suc.prems in auto)
qed

lemmas build_defs =
  geojson_geometry_def geometry_filter_def date_range_filter_def cloud_cover_filter_def
  combined_filter_def search_request_def new_dict_def new_list_def item_type_def


subsection \<open>Comprehensions keep the order\<close>


lemma list_comp_not_IndexError:
  "(\<And>x. f x \<noteq> Inl IndexError) \<Longrightarrow> list_comp f xs \<noteq> Inl IndexError"
  by (induction xs) (auto split: sum.splits)

lemma getitem_str_not_IndexError: "getitem_str v k \<noteq> Inl IndexError"
  by (cases v) (auto split: option.splits)

subsection \<open>Successful steps\<close>

lemma bind_InrE:
  assumes "bind m f w = (Inr y, w')"
  obtains x w1 where "m w = (Inr x, w1)" and "f x w1 = (Inr y, w')"
  using assms by (auto simp: bind_def split: prod.splits sum.splits)

lemma lift_InrD: "lift r w = (Inr x, w') \<Longrightarrow> r = Inr x \<and> w' = w"
  by (simp add: lift_def)

lemma print_InrD: "print v w = (Inr u, w') \<Longrightarrow> w' = w\<lparr>printed := printed w @ [v]\<rparr>"
  by (auto simp: print_def)

lemma http_InrD:
  "http srv r w = (Inr rep, w')
   \<Longrightarrow> rep = srv (length (sent w)) r \<and> w' = w\<lparr>sent := sent w @ [r]\<rparr>"
  by (auto simp: http_def split: reply.splits)

lemma requests_get_InrD:
  "requests_get srv u a w = (Inr rep, w') \<Longrightarrow>
     \<exists>s. u = JStr s
        \<and> rep = srv (length (sent w)) \<lparr>verb = GET, url = s, auth = a, body = None\<rparr>
        \<and> w' = w\<lparr>sent := sent w @ [\<lparr>verb = GET, url = s, auth = a, body = None\<rparr>]\<rparr>"
  by (cases u) (auto simp: requests_get_def lift_def dest: http_InrD)




lemma activation_status_result_InrD:
  assumes "activation_status_result srv key sl w = (Inr r, w')"
  shows "\<exists>u. sl = JStr u
           \<and> sent w' = sent w @ [\<lparr>verb = GET, url = u,
                                    auth = HTTPBasicAuth key '''', body = None\<rparr>]
           \<and> r = srv (length (sent w)) \<lparr>verb = GET, url = u,
                                    auth = HTTPBasicAuth key '''', body = None\<rparr>
           \<and> and_then (response_json r) (\<lambda>j. getitem_str j ''status'')
               = Inr (last (printed w'))"
  using assms unfolding activation_status_result_def
  by (auto elim!: bind_InrE dest!: lift_InrD print_InrD requests_get_InrD)

subsection \<open>What the cells send\<close>

lemma traffic_lift: "traffic P n (lift r)"
  by (simp add: traffic_def lift_def)

lemma traffic_print: "traffic P n (print v)"
  by (simp add: traffic_def print_def)

lemma traffic_http: "P r \<Longrightarrow> traffic P (Suc n) (http srv r)"
  by (auto simp: traffic_def http_def split: reply.splits)

lemma traffic_weaken: "traffic P a m \<Longrightarrow> a \<le> b \<Longrightarrow> traffic P b m"
  unfolding traffic_def by (meson le_trans)

lemma traffic_bind:
  assumes m: "traffic P a m" and f: "\<And>x. traffic P b (f x)"
  shows "traffic P (a + b) (bind m f)"
  unfolding traffic_def
proof
  fix w
  from m obtain rs
    where rs: "sent (snd (m w)) = sent w @ rs" "length rs \<le> a" "list_all P rs"
    unfolding traffic_def by blast
  show "\<exists>rs. sent (snd (bind m f w)) = sent w @ rs \<and> length rs \<le> a + b \<and> list_all P rs"
  proof (cases "m w")
    case (Pair r w1)
    show ?thesis
    proof (cases r)
      case (Inl e)
      with Pair rs show ?thesis
        by (auto simp: bind_def)
    next
      case (Inr x)
      from f[of x] obtain rs'
        where "sent (snd (f x w1)) = sent w1 @ rs'" "length rs' \<le> b" "list_all P rs'"
        unfolding traffic_def by blast
      with Pair Inr rs
      have "sent (snd (bind m f w)) = sent w @ (rs @ rs')"
        and "length (rs @ rs') \<le> a + b" and "list_all P (rs @ rs')"
        by (auto simp: bind_def)
      then show ?thesis by blast
    qed
  qed
qed

lemma traffic_bind_lift: "(\<And>x. traffic P n (f x)) \<Longrightarrow> traffic P n (bind (lift r) f)"
  using traffic_bind[of P 0 "lift r" n f] by (simp add: traffic_lift)

lemma traffic_bind_print: "(\<And>x. traffic P n (f x)) \<Longrightarrow> traffic P n (bind (print v) f)"
  using traffic_bind[of P 0 "print v" n f] by (simp add: traffic_print)

lemma traffic_bind_http:
  "P r \<Longrightarrow> (\<And>x. traffic P n (f x)) \<Longrightarrow> traffic P (Suc n) (bind (http srv r) f)"
  using traffic_bind[of P "Suc 0" "http srv r" n f] by (simp add: traffic_http)

lemma traffic_bind_post:
  "P \<lparr>verb = POST, url = s, auth = a, body = Some j\<rparr> \<Longrightarrow> (\<And>x. traffic P n (f x))
   \<Longrightarrow> traffic P (Suc n) (bind (requests_post srv s a j) f)"
  unfolding requests_post_def by (rule traffic_bind_http)

lemma traffic_bind_get:
  assumes "\<And>s. P \<lparr>verb = GET, url = s, auth = a, body = None\<rparr>"
    and "\<And>x. traffic P n (f x)"
  shows "traffic P (Suc n) (bind (requests_get srv u a) f)"
proof (cases u)
  case (JStr s)
  then show ?thesis
    unfolding requests_get_def using assms by (simp add: traffic_bind_http)
qed (simp_all add: requests_get_def traffic_bind_lift traffic_weaken[OF assms(2)])

lemma traffic_search_result:
  assumes "\<And>r. auth r = HTTPBasicAuth key '''' \<Longrightarrow> P r"
  shows "traffic P (Suc 0) (search_result srv key b)"
  unfolding search_result_def
  by (intro traffic_bind_post traffic_bind_lift traffic_bind_print traffic_lift assms) simp

lemma traffic_result:
  assumes "\<And>r. auth r = HTTPBasicAuth key '''' \<Longrightarrow> P r"
  shows "traffic P (Suc 0) (result srv key str_of ids)"
  unfolding result_def
  by (intro traffic_bind_get traffic_bind_lift traffic_bind_print traffic_lift assms) simp

lemma traffic_activate_result:
  assumes "\<And>r. auth r = HTTPBasicAuth key '''' \<Longrightarrow> P r"
  shows "traffic P (Suc 0) (activate_result srv key r)"
  unfolding activate_result_def
  by (intro traffic_bind_get traffic_bind_lift traffic_bind_print traffic_lift assms) simp

lemma traffic_activation_status_result:
  assumes "\<And>r. auth r = HTTPBasicAuth key '''' \<Longrightarrow> P r"
  shows "traffic P (Suc 0) (activation_status_result srv key sl)"
  unfolding activation_status_result_def
  by (intro traffic_bind_get traffic_bind_lift traffic_bind_print traffic_lift assms) simp

lemma traffic_bind_search_result:
  assumes "\<And>r. auth r = HTTPBasicAuth key '''' \<Longrightarrow> P r" and "\<And>x. traffic P n (f x)"
  shows "traffic P (Suc n) (bind (search_result srv key b) f)"
  using traffic_bind[OF traffic_search_result[of key P srv b] assms(2)] assms(1) by simp

lemma traffic_bind_result:
  assumes "\<And>r. auth r = HTTPBasicAuth key '''' \<Longrightarrow> P r" and "\<And>x. traffic P n (f x)"
  shows "traffic P (Suc n) (bind (result srv key str_of ids) f)"
  using traffic_bind[OF traffic_result[of key P srv str_of ids] assms(2)] assms(1) by simp

lemma traffic_bind_activate_result:
  assumes "\<And>r. auth r = HTTPBasicAuth key '''' \<Longrightarrow> P r" and "\<And>x. traffic P n (f x)"
  shows "traffic P (Suc n) (bind (activate_result srv key r) f)"
  using traffic_bind[OF traffic_activate_result[of key P srv r] assms(2)] assms(1) by simp

lemma traffic_bind_activation_status_result:
  assumes "\<And>r. auth r = HTTPBasicAuth key '''' \<Longrightarrow> P r" and "\<And>x. traffic P n (f x)"
  shows "traffic P (Suc n) (bind (activation_status_result srv key sl) f)"
  using traffic_bind[OF traffic_activation_status_result[of key P srv sl] assms(2)] assms(1)
  by simp

lemmas traffic_cells =
  traffic_bind_search_result traffic_bind_result traffic_bind_activate_result
  traffic_bind_activation_status_result traffic_bind_lift traffic_bind_print traffic_lift

lemma traffic_notebook:
  "traffic (\<lambda>r. auth r = HTTPBasicAuth (API_KEY environ) '''') 4 (notebook environ srv str_of)"
proof -
  have four: "4 = Suc (Suc (Suc (Suc 0)))"
    by simp
  show ?thesis
    unfolding notebook_def Let_def split_def four by (intro traffic_cells)
qed





subsection \<open>Reading a member back\<close>




section \<open>Properties of the notebook\<close>

subsection \<open>Missing asset\<close>

text \<open>
  C1, as amended: for every assets response that is a mapping without the key
  \<^verbatim>\<open>ortho_analytic_4b\<close>, the status lookup of cell 7 and the links lookup of cell 8 raise
  Python's KeyError carrying the asset name. No cell catches it, so it is the outcome of the
  lookup; the notebook has no error value of its own.
\<close>

theorem missing_asset_raises_KeyError:
  assumes "map_of kvs ''ortho_analytic_4b'' = None"
  shows "and_then (response_json (Body (JObj kvs))) asset_status
           = Inl (KeyError (JStr ''ortho_analytic_4b''))
       \<and> and_then (response_json (Body (JObj kvs))) links
           = Inl (KeyError (JStr ''ortho_analytic_4b''))"
  using assms by (simp add: and_then_def asset_status_def links_def)

text \<open>An assets mapping that has another asset only.\<close>

theorem missing_asset_raises_KeyError_witness:
  "map_of [(''basic_udm2'', JObj [(''status'', JStr ''active'')])] ''ortho_analytic_4b'' = None
   \<and> and_then (response_json (Body (JObj [(''basic_udm2'', JObj [(''status'', JStr ''active'')])])))
        asset_status = Inl (KeyError (JStr ''ortho_analytic_4b''))
   \<and> and_then (response_json (Body (JObj [(''basic_udm2'', JObj [(''status'', JStr ''active'')])])))
        links = Inl (KeyError (JStr ''ortho_analytic_4b''))"
proof -
  have h: "map_of [(''basic_udm2'', JObj [(''status'', JStr ''active'')])] ''ortho_analytic_4b''
             = None"
    by simp
  from h missing_asset_raises_KeyError[OF h] show ?thesis
    by blast
qed

text \<open>
  The empty assets mapping, as in the notebook's recorded run: the lookup is a KeyError, and
  a run whose assets response is empty ends with it.
\<close>

theorem empty_assets_status_counterexample:
  "and_then (response_json (Body (JObj []))) asset_status
     = Inl (KeyError (JStr ''ortho_analytic_4b''))
   \<and> fst (notebook unset_environ (demo_server (JObj []) demo_active) str_stub fresh)
     = Inl (KeyError (JStr ''ortho_analytic_4b''))"
  by code_simp

subsection \<open>The status query\<close>

text \<open>
  C2, as amended: the source queries the activation status once. Cell 9 issues exactly one
  GET on the self link, whatever the answer; when the cell succeeds, its result is the reply
  to that one request and the printed status is that reply's status field. A run of the
  notebook issues at most four requests: the search, the assets, the activation and the one
  status query. There is no loop and no interval.
\<close>

theorem status_is_queried_once:
  "sent (snd (activation_status_result srv key (JStr u) w))
     = sent w @ [\<lparr>verb = GET, url = u, auth = HTTPBasicAuth key '''', body = None\<rparr>]
   \<and> length (sent (snd (activation_status_result srv key self_link w))) \<le> Suc (length (sent w))
   \<and> length (sent (snd (notebook environ srv str_of fresh))) \<le> 4
   \<and> (activation_status_result srv key self_link w = (Inr r, w') \<longrightarrow>
        length (sent w') = Suc (length (sent w))
        \<and> r = srv (length (sent w)) (last (sent w'))
        \<and> and_then (response_json r) (\<lambda>j. getitem_str j ''status'') = Inr (last (printed w')))"
proof (intro conjI impI)
  show "sent (snd (activation_status_result srv key (JStr u) w))
     = sent w @ [\<lparr>verb = GET, url = u, auth = HTTPBasicAuth key '''', body = None\<rparr>]"
    by (auto simp: activation_status_result_def requests_get_def bind_def http_def lift_def
        print_def split: reply.splits sum.splits prod.splits)
next
  have "traffic (\<lambda>_. True) (Suc 0) (activation_status_result srv key self_link)"
    by (rule traffic_activation_status_result) simp
  then obtain rs where "sent (snd (activation_status_result srv key self_link w)) = sent w @ rs"
    and "length rs \<le> Suc 0"
    unfolding traffic_def by blast
  then show "length (sent (snd (activation_status_result srv key self_link w)))
               \<le> Suc (length (sent w))"
    by simp
next
  from traffic_notebook[of environ srv str_of]
  obtain rs where "sent (snd (notebook environ srv str_of fresh)) = sent fresh @ rs"
    and "length rs \<le> 4"
    unfolding traffic_def by blast
  then show "length (sent (snd (notebook environ srv str_of fresh))) \<le> 4"
    by (simp add: fresh_def)
next
  assume a: "activation_status_result srv key self_link w = (Inr r, w')"
  from activation_status_result_InrD[OF a]
  show "length (sent w') = Suc (length (sent w))"
    and "r = srv (length (sent w)) (last (sent w'))"
    and "and_then (response_json r) (\<lambda>j. getitem_str j ''status'') = Inr (last (printed w'))"
    by auto
qed

text \<open>The cell against a service that answers \<^verbatim>\<open>activating\<close>: one request, one print.\<close>

theorem status_is_queried_once_witness:
  "activation_status_result (demo_server demo_assets (JObj [(''status'', JStr ''activating'')]))
       ''my-key'' (JStr ''https://self'') fresh
     = (Inr (Body (JObj [(''status'', JStr ''activating'')])),
        \<lparr>sent = [\<lparr>verb = GET, url = ''https://self'', auth = Some (''my-key'', ''''),
                   body = None\<rparr>],
         printed = [JStr ''activating'']\<rparr>)
   \<and> length (sent \<lparr>sent = [\<lparr>verb = GET, url = ''https://self'',
                             auth = Some (''my-key'', ''''), body = None\<rparr>],
                    printed = [JStr ''activating'']\<rparr>) = Suc (length (sent fresh))"
proof -
  have h: "activation_status_result
             (demo_server demo_assets (JObj [(''status'', JStr ''activating'')]))
             ''my-key'' (JStr ''https://self'') fresh
           = (Inr (Body (JObj [(''status'', JStr ''activating'')])),
              \<lparr>sent = [\<lparr>verb = GET, url = ''https://self'', auth = Some (''my-key'', ''''),
                         body = None\<rparr>],
               printed = [JStr ''activating'']\<rparr>)"
    by code_simp
  from status_is_queried_once[of "demo_server demo_assets (JObj [(''status'', JStr ''activating'')])"
      "''my-key''" "''https://self''" fresh "JStr ''https://self''" unset_environ str_stub
      "Body (JObj [(''status'', JStr ''activating'')])"
      "\<lparr>sent = [\<lparr>verb = GET, url = ''https://self'', auth = Some (''my-key'', ''''),
                 body = None\<rparr>], printed = [JStr ''activating'']\<rparr>"] h
  show ?thesis by blast
qed

text \<open>
  A service whose asset is still activating at the first status query and active at any
  later one. The run issues four requests, the last printed value is \<^verbatim>\<open>activating\<close>,
  the same request repeated would have been answered with the active asset, and the run ends
  in the next cell on the missing \<^verbatim>\<open>location\<close>: the status was asked once, not until
  it flipped.
\<close>

theorem single_status_query_counterexample:
  "length (sent (snd (notebook unset_environ
       (demo_server demo_assets (JObj [(''status'', JStr ''activating'')])) str_stub fresh))) = 4
   \<and> last (printed (snd (notebook unset_environ
       (demo_server demo_assets (JObj [(''status'', JStr ''activating'')])) str_stub fresh)))
     = JStr ''activating''
   \<and> demo_server demo_assets (JObj [(''status'', JStr ''activating'')]) 4
       (last (sent (snd (notebook unset_environ
          (demo_server demo_assets (JObj [(''status'', JStr ''activating'')])) str_stub fresh))))
     = Body demo_active
   \<and> fst (notebook unset_environ
       (demo_server demo_assets (JObj [(''status'', JStr ''activating'')])) str_stub fresh)
     = Inl (KeyError (JStr ''location''))"
  by code_simp

subsection \<open>The conjunction filter\<close>

text \<open>
  C4: for every three child values that serialise, the combined filter serialises to the
  object tagged \<^verbatim>\<open>AndFilter\<close> whose \<^verbatim>\<open>config\<close> is the array of the three children's
  serialisations, unchanged and in the order geometry, date range, cloud cover; and for the
  notebook's own children that array is the GeometryFilter, the DateRangeFilter and the
  RangeFilter as written in cell 3.
\<close>

theorem combined_filter_preserves_children:
  assumes "json_dumps n h g = Some jg"
    and "json_dumps n h d = Some jd"
    and "json_dumps n h c = Some jc"
  shows "(case combined_filter g d c h of (af, h') \<Rightarrow> json_dumps (Suc (Suc n)) h' af)
           = Some (JObj [(''type'', JStr ''AndFilter''), (''config'', JArr [jg, jd, jc])])
       \<and> (case build_filters [] of (vars, h') \<Rightarrow>
            json_dumps (length h') h' (v_combined_filter vars))
           = Some (JObj [(''type'', JStr ''AndFilter''),
               (''config'', JArr [
                  JObj [(''type'', JStr ''GeometryFilter''),
                        (''field_name'', JStr ''geometry''),
                        (''config'', JObj [(''type'', JStr ''Polygon''),
                           (''coordinates'', JArr [JArr [
                              JArr [JFloat (-121.59290313720705), JFloat 37.93444993515032],
                              JArr [JFloat (-121.27017974853516), JFloat 37.93444993515032],
                              JArr [JFloat (-121.27017974853516), JFloat 38.065932950547484],
                              JArr [JFloat (-121.59290313720705), JFloat 38.065932950547484],
                              JArr [JFloat (-121.59290313720705), JFloat 37.93444993515032]]])])],
                  JObj [(''type'', JStr ''DateRangeFilter''),
                        (''field_name'', JStr ''acquired''),
                        (''config'', JObj [(''gte'', JStr ''2016-08-31T00:00:00.000Z''),
                                           (''lte'', JStr ''2016-09-01T00:00:00.000Z'')])],
                  JObj [(''type'', JStr ''RangeFilter''),
                        (''field_name'', JStr ''cloud_cover''),
                        (''config'', JObj [(''lte'', JFloat 0.5)])]])])"
proof
  let ?h' = "h @ [OList [g, d, c],
                  ODict [(''type'', VStr ''AndFilter''), (''config'', VRef (length h))]]"
  have built: "combined_filter g d c h = (VRef (Suc (length h)), ?h')"
    by (simp add: combined_filter_def new_list_def new_dict_def)
  have "json_dumps n ?h' g = Some jg" and "json_dumps n ?h' d = Some jd"
    and "json_dumps n ?h' c = Some jc"
    using assms by (simp_all add: json_dumps_heap_mono)
  then show "(case combined_filter g d c h of (af, h') \<Rightarrow> json_dumps (Suc (Suc n)) h' af)
           = Some (JObj [(''type'', JStr ''AndFilter''), (''config'', JArr [jg, jd, jc])])"
    by (simp add: built nth_append)
qed code_simp

text \<open>Three children of different kinds: a stored list, a string and None.\<close>

theorem combined_filter_preserves_children_witness:
  "json_dumps 1 [OList [VInt 1]] (VRef 0) = Some (JArr [JInt 1])
   \<and> json_dumps 1 [OList [VInt 1]] (VStr ''x'') = Some (JStr ''x'')
   \<and> json_dumps 1 [OList [VInt 1]] VNone = Some JNull
   \<and> (case combined_filter (VRef 0) (VStr ''x'') VNone [OList [VInt 1]] of
        (af, h') \<Rightarrow> json_dumps (Suc (Suc 1)) h' af)
       = Some (JObj [(''type'', JStr ''AndFilter''),
                     (''config'', JArr [JArr [JInt 1], JStr ''x'', JNull])])"
proof -
  have g: "json_dumps 1 [OList [VInt 1]] (VRef 0) = Some (JArr [JInt 1])"
    by code_simp
  have d: "json_dumps 1 [OList [VInt 1]] (VStr ''x'') = Some (JStr ''x'')"
    by simp
  have c: "json_dumps 1 [OList [VInt 1]] VNone = Some JNull"
    by simp
  from g d c combined_filter_preserves_children[OF g d c] show ?thesis
    by blast
qed

subsection \<open>The download link\<close>



subsection \<open>Authentication\<close>

text \<open>
  C6: every request a run of the notebook issues carries basic authentication with the API
  key as user name and the empty password; the key is the value of \<^verbatim>\<open>PL_API_KEY\<close> when
  that variable is set and not empty, and the literal written in cell 1 otherwise.
\<close>

theorem every_request_is_authenticated:
  "list_all (\<lambda>r. auth r = Some (API_KEY environ, ''''))
     (sent (snd (notebook environ srv str_of fresh)))
   \<and> API_KEY environ =
       (case environ ''PL_API_KEY'' of
          None \<Rightarrow> ''PLAKcaa4ce6cd0464a058d71353bf2bca50b''
        | Some k \<Rightarrow> if k = '''' then ''PLAKcaa4ce6cd0464a058d71353bf2bca50b'' else k)"
proof
  from traffic_notebook[of environ srv str_of]
  obtain rs where "sent (snd (notebook environ srv str_of fresh)) = sent fresh @ rs"
    and "list_all (\<lambda>r. auth r = HTTPBasicAuth (API_KEY environ) '''') rs"
    unfolding traffic_def by blast
  then show "list_all (\<lambda>r. auth r = Some (API_KEY environ, ''''))
     (sent (snd (notebook environ srv str_of fresh)))"
    by (simp add: fresh_def HTTPBasicAuth_def)
next
  show "API_KEY environ =
       (case environ ''PL_API_KEY'' of
          None \<Rightarrow> ''PLAKcaa4ce6cd0464a058d71353bf2bca50b''
        | Some k \<Rightarrow> if k = '''' then ''PLAKcaa4ce6cd0464a058d71353bf2bca50b'' else k)"
    by (simp add: API_KEY_def environ_get_def split: option.splits)
qed

text \<open>A complete run with the variable set: four requests, each with the variable's value.\<close>

theorem every_request_is_authenticated_witness:
  "list_all (\<lambda>r. auth r = Some (''my-key'', ''''))
     (sent (snd (notebook set_environ (demo_server demo_assets demo_active) str_stub fresh)))
   \<and> length (sent (snd (notebook set_environ (demo_server demo_assets demo_active) str_stub
        fresh))) = 4
   \<and> API_KEY set_environ = ''my-key''
   \<and> API_KEY unset_environ = ''PLAKcaa4ce6cd0464a058d71353bf2bca50b''"
proof -
  have k: "API_KEY set_environ = ''my-key''"
    by code_simp
  have u: "API_KEY unset_environ = ''PLAKcaa4ce6cd0464a058d71353bf2bca50b''"
    by code_simp
  have n: "length (sent (snd (notebook set_environ (demo_server demo_assets demo_active) str_stub
        fresh))) = 4"
    by code_simp
  have "list_all (\<lambda>r. auth r = Some (API_KEY set_environ, ''''))
     (sent (snd (notebook set_environ (demo_server demo_assets demo_active) str_stub fresh)))"
    using every_request_is_authenticated[of set_environ "demo_server demo_assets demo_active"
        str_stub]
    by (rule conjunct1)
  then have "list_all (\<lambda>r. auth r = Some (''my-key'', ''''))
     (sent (snd (notebook set_environ (demo_server demo_assets demo_active) str_stub fresh)))"
    by (simp only: k)
  with k u n show ?thesis
    by blast
qed

subsection \<open>The search request and its result\<close>



subsection \<open>Construction does not modify\<close>

text \<open>
  C8: from any store, building the geometry, the three child filters, the combined filter
  and the request object only adds objects: the store after each statement extends the store
  before it, so the geometry and every child filter are at the end what they were when
  built, and serialise to the same tree. The geometry filter's \<^verbatim>\<open>config\<close> is the
  geometry's own address, the combined filter's \<^verbatim>\<open>config\<close> is the list of the three
  child filters' own addresses, and the request's \<^verbatim>\<open>filter\<close> is the combined filter's
  own address.
\<close>

theorem construction_leaves_values_unchanged:
  "case geojson_geometry h0 of (g, h1) \<Rightarrow>
   case geometry_filter g h1 of (gf, h2) \<Rightarrow>
   case date_range_filter h2 of (df, h3) \<Rightarrow>
   case cloud_cover_filter h3 of (cf, h4) \<Rightarrow>
   case combined_filter gf df cf h4 of (af, h5) \<Rightarrow>
   case search_request af h5 of (sr, h6) \<Rightarrow>
     prefix h0 h1 \<and> prefix h1 h2 \<and> prefix h2 h3 \<and> prefix h3 h4 \<and> prefix h4 h5 \<and> prefix h5 h6
     \<and> prefix h1 h6 \<and> prefix h2 h6 \<and> prefix h3 h6 \<and> prefix h4 h6
     \<and> json_dumps 4 h6 g = json_dumps 4 h1 g
     \<and> json_dumps 5 h6 gf = json_dumps 5 h2 gf
     \<and> json_dumps 2 h6 df = json_dumps 2 h3 df
     \<and> json_dumps 2 h6 cf = json_dumps 2 h4 cf
     \<and> deref h6 gf = Some (ODict [(''type'', VStr ''GeometryFilter''),
                                    (''field_name'', VStr ''geometry''), (''config'', g)])
     \<and> deref h6 af = Some (ODict [(''type'', VStr ''AndFilter''), (''config'', VRef (length h4))])
     \<and> deref h6 (VRef (length h4)) = Some (OList [gf, df, cf])
     \<and> deref h6 sr = Some (ODict [(''item_types'', VRef (length h5)), (''filter'', af)])"
  by (simp add: build_defs Let_def split_def nth_append eval_nat_numeral)

subsection \<open>The first image\<close>

text \<open>
  C9: when the search response's \<^verbatim>\<open>features\<close> is the empty list, the image ids are the
  empty list and taking \<^verbatim>\<open>image_ids[0]\<close> raises IndexError, which nothing catches; when
  the list has a feature, taking the first id never raises IndexError, and if the ids were
  extracted it yields the first feature's id.
\<close>

theorem first_image_needs_a_feature:
  assumes "getitem_str geojson ''features'' = Inr (JArr fs)"
  shows "(fs = [] \<longrightarrow> image_ids geojson = Inr []
                      \<and> and_then (image_ids geojson) id0 = Inl IndexError)
       \<and> (fs \<noteq> [] \<longrightarrow> and_then (image_ids geojson) id0 \<noteq> Inl IndexError)
       \<and> (fs \<noteq> [] \<longrightarrow> image_ids geojson = Inr ids \<longrightarrow>
            ids \<noteq> [] \<and> id0 ids = Inr (hd ids) \<and> getitem_str (hd fs) ''id'' = Inr (hd ids))"
proof -
  have ids: "image_ids geojson = list_comp (\<lambda>feature. getitem_str feature ''id'') fs"
    using assms by (simp add: image_ids_def and_then_def)
  have empty: "fs = [] \<longrightarrow> image_ids geojson = Inr []
                      \<and> and_then (image_ids geojson) id0 = Inl IndexError"
    by (simp add: ids and_then_def id0_def list_index_def)
  have some: "ys \<noteq> [] \<and> id0 ys = Inr (hd ys) \<and> getitem_str (hd fs) ''id'' = Inr (hd ys)"
    if "fs \<noteq> []" and "image_ids geojson = Inr ys" for ys
  proof -
    from that obtain f fs' where fs: "fs = f # fs'"
      by (cases fs) auto
    with that(2) ids obtain y ys' where "ys = y # ys'" and "getitem_str f ''id'' = Inr y"
      by (auto split: sum.splits)
    with fs show ?thesis
      by (simp add: id0_def list_index_def)
  qed
  have no_index: "fs \<noteq> [] \<longrightarrow> and_then (image_ids geojson) id0 \<noteq> Inl IndexError"
  proof
    assume ne: "fs \<noteq> []"
    show "and_then (image_ids geojson) id0 \<noteq> Inl IndexError"
    proof (cases "image_ids geojson")
      case (Inl e)
      have "list_comp (\<lambda>feature. getitem_str feature ''id'') fs \<noteq> Inl IndexError"
        by (rule list_comp_not_IndexError) (rule getitem_str_not_IndexError)
      with Inl ids show ?thesis
        by (simp add: and_then_def)
    next
      case (Inr ys)
      with some[OF ne Inr] show ?thesis
        by (simp add: and_then_def)
    qed
  qed
  from empty no_index some show ?thesis
    by blast
qed

text \<open>A response without features, and a response with two.\<close>

theorem first_image_needs_a_feature_witness:
  "getitem_str (JObj [(''features'', JArr [])]) ''features'' = Inr (JArr [])
   \<and> image_ids (JObj [(''features'', JArr [])]) = Inr []
   \<and> and_then (image_ids (JObj [(''features'', JArr [])])) id0 = Inl IndexError
   \<and> getitem_str demo_geojson ''features''
     = Inr (JArr [JObj [(''id'', JStr ''20160831_212705_0c43'')],
                  JObj [(''id'', JStr ''20160831_212703_0c43'')]])
   \<and> image_ids demo_geojson
     = Inr [JStr ''20160831_212705_0c43'', JStr ''20160831_212703_0c43'']
   \<and> id0 [JStr ''20160831_212705_0c43'', JStr ''20160831_212703_0c43'']
     = Inr (hd [JStr ''20160831_212705_0c43'', JStr ''20160831_212703_0c43''])"
proof -
  have e: "getitem_str (JObj [(''features'', JArr [])]) ''features'' = Inr (JArr [])"
    by simp
  have f: "getitem_str demo_geojson ''features''
     = Inr (JArr [JObj [(''id'', JStr ''20160831_212705_0c43'')],
                  JObj [(''id'', JStr ''20160831_212703_0c43'')]])"
    by code_simp
  have i: "image_ids demo_geojson
     = Inr [JStr ''20160831_212705_0c43'', JStr ''20160831_212703_0c43'']"
    by code_simp
  have ne: "[JObj [(''id'', JStr ''20160831_212705_0c43'')],
             JObj [(''id'', JStr ''20160831_212703_0c43'')]] \<noteq> []"
    by simp
  from first_image_needs_a_feature[OF e, of "[]"]
  have "image_ids (JObj [(''features'', JArr [])]) = Inr []
      \<and> and_then (image_ids (JObj [(''features'', JArr [])])) id0 = Inl IndexError"
    by blast
  moreover from first_image_needs_a_feature[OF f,
      of "[JStr ''20160831_212705_0c43'', JStr ''20160831_212703_0c43'']"] i ne
  have "id0 [JStr ''20160831_212705_0c43'', JStr ''20160831_212703_0c43'']
     = Inr (hd [JStr ''20160831_212705_0c43'', JStr ''20160831_212703_0c43''])"
    by blast
  ultimately show ?thesis
    using e f i by blast
qed

subsection \<open>The cloud-cover bound\<close>

text \<open>
  C10: the cloud-cover filter serialises to a RangeFilter on \<^verbatim>\<open>cloud_cover\<close> whose
  configuration is the single bound \<^verbatim>\<open>lte\<close> 0.5. Read by its name the bound admits
  exactly the values up to and including 0.5, so a cloud cover of exactly 0.5 passes; the
  strict bound \<^verbatim>\<open>lt\<close> 0.5, which is what the cell's comment says, would not admit it.
\<close>

theorem cloud_cover_bound_is_inclusive:
  "(case cloud_cover_filter h of (cf, h') \<Rightarrow> json_dumps 2 h' cf)
     = Some (JObj [(''type'', JStr ''RangeFilter''),
                   (''field_name'', JStr ''cloud_cover''),
                   (''config'', JObj [(''lte'', JFloat 0.5)])])
   \<and> range_admits (JObj [(''lte'', JFloat 0.5)]) x = (x \<le> 0.5)
   \<and> range_admits (JObj [(''lte'', JFloat 0.5)]) 0.5
   \<and> \<not> range_admits (JObj [(''lt'', JFloat 0.5)]) 0.5"
  by (simp add: build_defs Let_def split_def nth_append numeral_2_eq_2)

end
